theory Spec2Isabelle
  imports Main
begin

section \<open>Values of the JavaScript runtime\<close>

text \<open>
  The client of \<^verbatim>\<open>src/utils/client.ts\<close> formats numbers into template literals, takes
  remainders with \<^verbatim>\<open>%\<close>, tests strings for truthiness and reads the wall clock. The
  definitions of this section give those operations the meaning they have in JavaScript
  on the integers the client feeds them.
\<close>

text \<open>\<^verbatim>\<open>`${n}`\<close> for an integer \<open>n\<close>: decimal digits, with a leading minus sign below zero.\<close>

function show_nat :: "nat \<Rightarrow> string" where
  "show_nat n =
     (if n < 10 then [''0123456789'' ! n]
      else show_nat (n div 10) @ [''0123456789'' ! (n mod 10)])"
  by pat_completeness auto
termination
  by (relation "measure id") auto

declare show_nat.simps [simp del]

definition show_int :: "int \<Rightarrow> string" where
  "show_int i = (if i < 0 then CHR ''-'' # show_nat (nat (- i)) else show_nat (nat i))"

text \<open>
  \<^verbatim>\<open>a % b\<close> for integers and a divisor other than zero: the remainder of the division
  that truncates towards zero, so the result has the sign of the dividend
  (\<^verbatim>\<open>-1 % 60\<close> is \<^verbatim>\<open>-1\<close>).
\<close>

definition js_rem :: "int \<Rightarrow> int \<Rightarrow> int" where
  "js_rem a b = sgn a * (\<bar>a\<bar> mod \<bar>b\<bar>)"

text \<open>
  A \<^verbatim>\<open>Date\<close> as the client reads it: its time value in milliseconds and the local
  day of the month, hour and minute that the runtime derives from it.
\<close>

record date =
  getTime :: int
  getDate :: int
  getHours :: int
  getMinutes :: int

text \<open>
  What calling a function can do: return (for an \<^verbatim>\<open>async\<close> function, a promise that is
  fulfilled), throw synchronously, or return a promise that is rejected.
\<close>

datatype outcome = Returns | Throws string | Rejects string

text \<open>What the client does to the outside world, in the order it does it.\<close>

datatype effect =
    LogInfo string
  | LogSuccess string
  | LogError string
  | Invoke string
  | EditReply string
  | FollowUp string bool
  | UnhandledRejection string

section \<open>The client object\<close>

text \<open>\<^verbatim>\<open>authHash: { now: string; prev: string; expires: Date }\<close>; of \<open>expires\<close> only the
  time value is ever read.\<close>

record authHash =
  now :: string
  prev :: string
  expires :: int

text \<open>A slash-command interaction, with what its two reply methods do when called.\<close>

record interaction =
  isCommand :: bool
  commandName :: string
  replied :: bool
  editReply :: outcome
  followUp :: outcome

record extendedCommand =
  callback :: "interaction \<Rightarrow> outcome"

text \<open>A listener attached to the client's event emitter by \<^verbatim>\<open>on\<close> or \<^verbatim>\<open>once\<close>.\<close>

record 'a listener =
  eventName :: string
  isOnce :: bool
  listenerFn :: "'a \<Rightarrow> outcome \<times> effect list"

record 'a NucleusClient =
  commands :: "string \<rightharpoonup> extendedCommand"
  authHash :: authHash
  listeners :: "'a listener list"

text \<open>
  The constructor. \<^verbatim>\<open>super(...)\<close> runs the constructor of the discord.js client, which
  attaches one listener of its own, for \<^verbatim>\<open>shardDisconnect\<close>: it destroys the voice adapters
  of the shard; this client has none, so the listener returns and does nothing. Then
  \<^verbatim>\<open>this.authHash = { now: "", prev: "", expires: new Date() }\<close>.
\<close>

definition shardDisconnect_listener :: "'a listener" where
  "shardDisconnect_listener =
     \<lparr>eventName = ''shardDisconnect'', isOnce = False, listenerFn = (\<lambda>args. (Returns, []))\<rparr>"

definition constructed :: "(string \<rightharpoonup> extendedCommand) \<Rightarrow> date \<Rightarrow> 'a NucleusClient" where
  "constructed cmds d =
     \<lparr>commands = cmds, authHash = \<lparr>now = '''', prev = '''', expires = getTime d\<rparr>,
      listeners = [shardDisconnect_listener]\<rparr>"

section \<open>The rotating credential\<close>

definition isValidHash :: "'a NucleusClient \<Rightarrow> string \<Rightarrow> bool" where
  "isValidHash this hash \<longleftrightarrow> hash = now (authHash this) \<or> hash = prev (authHash this)"

text \<open>\<^verbatim>\<open>boolean | typeof this.authHash\<close>\<close>

datatype auth_result = Boolean bool | Credential authHash

text \<open>\<^verbatim>\<open>test ? this._isValidHash(test) : this.authHash\<close>: an absent argument and the empty
  string are both falsy.\<close>

definition answer :: "'a NucleusClient \<Rightarrow> string option \<Rightarrow> auth_result" where
  "answer this test =
     (case test of
        None \<Rightarrow> Credential (authHash this)
      | Some t \<Rightarrow> if t = '''' then Credential (authHash this) else Boolean (isValidHash this t))"

definition toHash :: "string \<Rightarrow> date \<Rightarrow> string" where
  "toHash auth d = auth @ show_int (getDate d) @ show_int (getHours d) @ show_int (getMinutes d)"

definition previousMinute :: "string \<Rightarrow> date \<Rightarrow> string" where
  "previousMinute auth d =
     auth @ show_int (getDate d) @ show_int (getHours d) @ show_int (js_rem (getMinutes d - 1) 60)"

text \<open>
  \<open>authToken sha256 env d0 d test this\<close>: \<open>sha256\<close> is the hex digest of the crypto
  library, \<open>env\<close> the value of \<^verbatim>\<open>process.env["NUCLEUS_AUTH"]\<close>, \<open>d0\<close> the clock read by the
  expiry test and \<open>d\<close> the clock read again when the credential is recomputed. The result
  is the returned value, the client afterwards and what was logged.
\<close>

definition authToken ::
  "(string \<Rightarrow> string) \<Rightarrow> string option \<Rightarrow> date \<Rightarrow> date \<Rightarrow> string option \<Rightarrow> 'a NucleusClient
     \<Rightarrow> auth_result \<times> 'a NucleusClient \<times> effect list" where
  "authToken sha256 env d0 d test this =
     (if expires (authHash this) > getTime d0 then (answer this test, this, [])
      else case env of
        None \<Rightarrow> (Boolean False, this, [LogError ''No auth token provided in environment''])
      | Some auth \<Rightarrow>
          if auth = '''' then (Boolean False, this, [LogError ''No auth token provided in environment''])
          else
            let hash = sha256 (toHash auth d);
                prevHash = sha256 (previousMinute auth d);
                this' = this\<lparr>authHash := \<lparr>now = hash, prev = prevHash, expires = getTime d + 60000\<rparr>\<rparr>
            in (answer this' test, this', []))"

text \<open>A value is truthy unless it is \<^verbatim>\<open>false\<close>; an object always is.\<close>

fun truthy :: "auth_result \<Rightarrow> bool" where
  "truthy (Boolean b) = b"
| "truthy (Credential c) = True"

section \<open>Dispatch of commands\<close>

text \<open>
  \<^verbatim>\<open>this.commands\<close> is an object literal, so \<^verbatim>\<open>this.commands[commandName]\<close> finds the
  command stored under that name, and for a name stored nowhere in the object it finds
  what \<^verbatim>\<open>Object.prototype\<close> holds under it: a function or object (truthy, and without
  a \<^verbatim>\<open>callback\<close>) for the names below, \<^verbatim>\<open>undefined\<close> for every other name.
\<close>

definition object_prototype_keys :: "string list" where
  "object_prototype_keys =
     [''constructor'', ''__proto__'', ''hasOwnProperty'', ''isPrototypeOf'',
      ''propertyIsEnumerable'', ''toLocaleString'', ''toString'', ''valueOf'',
      ''__defineGetter__'', ''__defineSetter__'', ''__lookupGetter__'', ''__lookupSetter__'']"

datatype 'v property = Own 'v | Inherited | Undefined

definition get_property :: "(string \<rightharpoonup> 'v) \<Rightarrow> string \<Rightarrow> 'v property" where
  "get_property obj key =
     (case obj key of
        Some v \<Rightarrow> Own v
      | None \<Rightarrow> if key \<in> set object_prototype_keys then Inherited else Undefined)"

definition messageContent :: string where
  "messageContent = ''There was an error while executing this command!''"

text \<open>Calling \<^verbatim>\<open>undefined\<close> throws a \<^verbatim>\<open>TypeError\<close>.\<close>

definition not_a_function :: string where
  "not_a_function = ''TypeError: this.commands[commandName].callback is not a function''"

text \<open>
  The \<^verbatim>\<open>catch\<close> block of \<^verbatim>\<open>commandHandler\<close>. Neither reply method is awaited or
  guarded: if the call throws, the error leaves the \<^verbatim>\<open>async\<close> function as the rejection
  of its promise; if the call returns a promise that is rejected, nobody handles it.
\<close>

definition catch_error :: "interaction \<Rightarrow> string \<Rightarrow> outcome \<times> effect list" where
  "catch_error interaction error =
     (let logged = LogError (''Error in command callback: '' @ error);
          (sent, result) =
            (if replied interaction then (EditReply messageContent, editReply interaction)
             else (FollowUp messageContent True, followUp interaction))
      in case result of
           Returns \<Rightarrow> (Returns, [logged, sent])
         | Throws e \<Rightarrow> (Rejects e, [logged, sent])
         | Rejects e \<Rightarrow> (Returns, [logged, sent, UnhandledRejection e]))"

text \<open>
  \<open>commandHandler this interaction\<close> gives how the promise of the \<^verbatim>\<open>async\<close> method
  settles (\<open>Returns\<close> when fulfilled), the client afterwards and the effects. The callback
  is called and not awaited: only what it throws synchronously reaches the \<^verbatim>\<open>catch\<close>.
\<close>

definition commandHandler ::
  "'a NucleusClient \<Rightarrow> interaction \<Rightarrow> outcome \<times> 'a NucleusClient \<times> effect list" where
  "commandHandler this interaction =
     (if \<not> isCommand interaction then (Returns, this, [])
      else case get_property (commands this) (commandName interaction) of
        Undefined \<Rightarrow> (Returns, this, [])
      | Inherited \<Rightarrow>
          (case catch_error interaction not_a_function of (r, fx) \<Rightarrow> (r, this, fx))
      | Own cmd \<Rightarrow>
          (case callback cmd interaction of
             Returns \<Rightarrow> (Returns, this, [Invoke (commandName interaction)])
           | Throws error \<Rightarrow>
               (case catch_error interaction error of
                  (r, fx) \<Rightarrow> (r, this, Invoke (commandName interaction) # fx))
           | Rejects error \<Rightarrow>
               (Returns, this, [Invoke (commandName interaction), UnhandledRejection error])))"

section \<open>Lifecycle events\<close>

text \<open>
  The client inherits \<^verbatim>\<open>on\<close>, \<^verbatim>\<open>once\<close> and \<^verbatim>\<open>emit\<close> from the event emitter of the
  runtime. A listener attached with \<^verbatim>\<open>once\<close> is removed just before its first call.
  \<^verbatim>\<open>emit\<close> calls the listeners of the event in the order they were attached; a listener
  that throws ends the emission, and the error leaves \<^verbatim>\<open>emit\<close>; a promise returned by
  a listener is dropped.
\<close>

definition on :: "string \<Rightarrow> ('a \<Rightarrow> outcome \<times> effect list) \<Rightarrow> 'a NucleusClient \<Rightarrow> 'a NucleusClient" where
  "on ev f this =
     this\<lparr>listeners := listeners this @ [\<lparr>eventName = ev, isOnce = False, listenerFn = f\<rparr>]\<rparr>"

definition once :: "string \<Rightarrow> ('a \<Rightarrow> outcome \<times> effect list) \<Rightarrow> 'a NucleusClient \<Rightarrow> 'a NucleusClient" where
  "once ev f this =
     this\<lparr>listeners := listeners this @ [\<lparr>eventName = ev, isOnce = True, listenerFn = f\<rparr>]\<rparr>"

fun emit_loop :: "string \<Rightarrow> 'a \<Rightarrow> 'a listener list \<Rightarrow> 'a listener list \<times> outcome \<times> effect list" where
  "emit_loop ev args [] = ([], Returns, [])"
| "emit_loop ev args (l # ls) =
     (if eventName l \<noteq> ev then
        (case emit_loop ev args ls of (ls', r, fx) \<Rightarrow> (l # ls', r, fx))
      else
        let kept = (if isOnce l then [] else [l]) in
        case listenerFn l args of
          (Throws e, fx) \<Rightarrow> (kept @ ls, Throws e, fx)
        | (Rejects e, fx) \<Rightarrow>
            (case emit_loop ev args ls of
               (ls', r, fx') \<Rightarrow> (kept @ ls', r, fx @ UnhandledRejection e # fx'))
        | (Returns, fx) \<Rightarrow>
            (case emit_loop ev args ls of (ls', r, fx') \<Rightarrow> (kept @ ls', r, fx @ fx')))"

definition emit :: "string \<Rightarrow> 'a \<Rightarrow> 'a NucleusClient \<Rightarrow> outcome \<times> 'a NucleusClient \<times> effect list" where
  "emit ev args this =
     (case emit_loop ev args (listeners this) of
        (ls', r, fx) \<Rightarrow> (r, this\<lparr>listeners := ls'\<rparr>, fx))"

text \<open>
  \<^verbatim>\<open>eventCapture(name, callback)\<close> is an \<^verbatim>\<open>async\<close> function that awaits the callback
  inside \<^verbatim>\<open>try\<close>: what the callback throws and what it rejects both reach the
  \<^verbatim>\<open>catch\<close>, and the promise of the wrapper is fulfilled either way.
\<close>

definition eventCapture :: "string \<Rightarrow> ('a \<Rightarrow> outcome) \<Rightarrow> 'a \<Rightarrow> outcome \<times> effect list" where
  "eventCapture name cb args =
     (case cb args of
        Returns \<Rightarrow> (Returns, [Invoke name])
      | Throws error \<Rightarrow>
          (Returns, [Invoke name, LogError (''Error in event '' @ name @ '' callback: '' @ error)])
      | Rejects error \<Rightarrow>
          (Returns, [Invoke name, LogError (''Error in event '' @ name @ '' callback: '' @ error)]))"

text \<open>The default export of an event file: \<^verbatim>\<open>{ event, once, callback }\<close>.\<close>

record 'a event_module =
  event :: string
  isOnceEvent :: bool
  eventCallback :: "'a \<Rightarrow> outcome"

definition endsWith :: "string \<Rightarrow> string \<Rightarrow> bool" where
  "endsWith s suffix \<longleftrightarrow> length suffix \<le> length s \<and> drop (length s - length suffix) s = suffix"

text \<open>
  The body of the \<^verbatim>\<open>forEach\<close> in \<^verbatim>\<open>registerEvents\<close>, run once the import of the file has
  settled; \<open>modules file\<close> is the default export of the file, \<open>None\<close> when there is none
  to read, and then the body's promise is rejected and nobody handles it.
\<close>

definition registerEvent ::
  "(string \<Rightarrow> 'a event_module option) \<Rightarrow> 'a NucleusClient \<times> effect list \<Rightarrow> string
     \<Rightarrow> 'a NucleusClient \<times> effect list" where
  "registerEvent modules acc file =
     (case acc of (this, fx) \<Rightarrow>
        (case modules file of
           None \<Rightarrow> (this, fx @ [UnhandledRejection file])
         | Some ev \<Rightarrow>
             ((if isOnceEvent ev then once (event ev) (eventCapture file (eventCallback ev)) this
               else on (event ev) (eventCapture file (eventCallback ev)) this),
              fx @ [LogInfo (''Registered event '' @ event ev)])))"

text \<open>
  \<open>registerEvents dir modules this\<close>: \<open>dir\<close> is the listing of the events directory. The
  two log lines of the method come first, since no import has settled when it returns.
\<close>

definition registerEvents ::
  "string list \<Rightarrow> (string \<Rightarrow> 'a event_module option) \<Rightarrow> 'a NucleusClient
     \<Rightarrow> 'a NucleusClient \<times> effect list" where
  "registerEvents dir modules this =
     (let eventFiles = filter (\<lambda>file. endsWith file ''.js'') dir
      in foldl (registerEvent modules)
           (this, [LogInfo ''Registering events'', LogSuccess ''Events registered'']) eventFiles)"

section \<open>Emission sequences and examples\<close>

text \<open>A sequence of emissions, each with its arguments.\<close>

fun emits :: "(string \<times> 'a) list \<Rightarrow> 'a NucleusClient \<Rightarrow> 'a NucleusClient \<times> effect list" where
  "emits [] this = (this, [])"
| "emits (e # es) this =
     (case emit (fst e) (snd e) this of
        (r, this', fx) \<Rightarrow> (case emits es this' of (this'', fx') \<Rightarrow> (this'', fx @ fx')))"

text \<open>
  The listener that \<open>registerEvent\<close> attaches for a file and its default export, the
  files of a directory that are registered, and what an emission does to such a list:
  who is called, who stays attached, and the effects of the calls.
\<close>

definition subscription :: "string \<times> 'a event_module \<Rightarrow> 'a listener" where
  "subscription p =
     \<lparr>eventName = event (snd p), isOnce = isOnceEvent (snd p),
      listenerFn = eventCapture (fst p) (eventCallback (snd p))\<rparr>"

definition imported ::
  "string list \<Rightarrow> (string \<Rightarrow> 'a event_module option) \<Rightarrow> (string \<times> 'a event_module) list" where
  "imported dir modules =
     concat (map (\<lambda>file. case modules file of None \<Rightarrow> [] | Some ev \<Rightarrow> [(file, ev)])
               (filter (\<lambda>file. endsWith file ''.js'') dir))"

definition subscribers ::
  "string \<Rightarrow> (string \<times> 'a event_module) list \<Rightarrow> (string \<times> 'a event_module) list" where
  "subscribers ev ps = filter (\<lambda>p. event (snd p) = ev) ps"

definition remaining ::
  "string \<Rightarrow> (string \<times> 'a event_module) list \<Rightarrow> (string \<times> 'a event_module) list" where
  "remaining ev ps = filter (\<lambda>p. \<not> (event (snd p) = ev \<and> isOnceEvent (snd p))) ps"

definition after_emissions ::
  "(string \<times> 'a) list \<Rightarrow> (string \<times> 'a event_module) list \<Rightarrow> (string \<times> 'a event_module) list" where
  "after_emissions es ps = foldl (\<lambda>ps e. remaining (fst e) ps) ps es"

definition captured :: "'a \<Rightarrow> (string \<times> 'a event_module) list \<Rightarrow> effect list" where
  "captured args ps =
     concat (map (\<lambda>p. snd (eventCapture (fst p) (eventCallback (snd p)) args)) ps)"

text \<open>
  Concrete inputs. \<open>example_digest\<close> stands in for the digest where a concrete one is
  needed; like a hex digest it never returns the empty string.
\<close>

definition example_digest :: "string \<Rightarrow> string" where
  "example_digest x = CHR ''#'' # x"

definition startup_time :: date where
  "startup_time = \<lparr>getTime = 0, getDate = 10, getHours = 14, getMinutes = 4\<rparr>"

definition minute5 :: date where
  "minute5 = \<lparr>getTime = 1000, getDate = 10, getHours = 14, getMinutes = 5\<rparr>"

definition minute5_later :: date where
  "minute5_later = \<lparr>getTime = 59000, getDate = 10, getHours = 14, getMinutes = 5\<rparr>"

definition minute6 :: date where
  "minute6 = \<lparr>getTime = 61000, getDate = 10, getHours = 14, getMinutes = 6\<rparr>"

definition ping :: extendedCommand where
  "ping = \<lparr>callback = (\<lambda>interaction. Returns)\<rparr>"

text \<open>
  \<^verbatim>\<open>src/commands/summary.ts\<close>: the callback is \<^verbatim>\<open>async\<close>, so whatever fails inside it
  (here \<^verbatim>\<open>mostRecent[0]!.count\<close> on an empty query result) rejects the promise it returns.
\<close>

definition rejecting_summary :: extendedCommand where
  "rejecting_summary =
     \<lparr>callback = (\<lambda>interaction. Rejects ''TypeError: mostRecent[0] is undefined'')\<rparr>"

definition slash :: "string \<Rightarrow> interaction" where
  "slash name = \<lparr>isCommand = True, commandName = name, replied = False,
                 editReply = Returns, followUp = Returns\<rparr>"

definition example_client :: "unit NucleusClient" where
  "example_client =
     constructed [''ping'' \<mapsto> ping, ''summary'' \<mapsto> rejecting_summary] startup_time"

definition at_minute5 :: "unit NucleusClient" where
  "at_minute5 =
     fst (snd (authToken example_digest (Some ''s3cr3t'') minute5 minute5 None example_client))"

definition ready_module :: "unit event_module" where
  "ready_module =
     \<lparr>event = ''ready'', isOnceEvent = True, eventCallback = (\<lambda>args. Throws ''boom'')\<rparr>"

definition audit_module :: "unit event_module" where
  "audit_module =
     \<lparr>event = ''messageCreate'', isOnceEvent = False,
      eventCallback = (\<lambda>args. Rejects ''db down'')\<rparr>"

definition count_module :: "unit event_module" where
  "count_module =
     \<lparr>event = ''messageCreate'', isOnceEvent = False, eventCallback = (\<lambda>args. Returns)\<rparr>"

definition example_dir :: "string list" where
  "example_dir = [''ready.js'', ''audit.js'', ''count.js'', ''README.md'']"

definition example_modules :: "string \<Rightarrow> unit event_module option" where
  "example_modules =
     [''ready.js'' \<mapsto> ready_module, ''audit.js'' \<mapsto> audit_module, ''count.js'' \<mapsto> count_module]"

definition example_emissions :: "(string \<times> unit) list" where
  "example_emissions = [(''ready'', ()), (''messageCreate'', ()), (''ready'', ())]"

definition example_registered :: "unit NucleusClient" where
  "example_registered = fst (registerEvents example_dir example_modules example_client)"

section \<open>Properties of the rotating credential\<close>

text \<open>
  A non-empty token is compared whatever the state: the answer is the boolean that says
  whether it is one of the two hashes held after the refresh.
\<close>

lemma validate_nonempty_token:
  assumes "t \<noteq> ''''" and "auth \<noteq> ''''"
    and "authToken sha256 (Some auth) d0 d (Some t) this = (r, this', fx)"
  shows "r = Boolean (t = now (authHash this') \<or> t = prev (authHash this'))"
  using assms by (auto simp: authToken_def answer_def isValidHash_def Let_def split: if_splits)

text \<open>
  C1. With the secret configured, \<open>authToken\<close> with a token \<open>t\<close> returns \<^verbatim>\<open>true\<close> exactly when
  \<open>t\<close> is, as a whole string, the \<open>now\<close> hash or the \<open>prev\<close> hash of the credential held after
  the lazy refresh, and \<^verbatim>\<open>false\<close> for every other token. The client does so for every token
  but the empty one (\<open>validate_nonempty_token\<close>). The empty token is neither hash, and
  the answer to it is not \<^verbatim>\<open>false\<close>: \<^verbatim>\<open>test ? ... : this.authHash\<close> takes it for a missing
  argument and returns the credential object, which is truthy.
\<close>

theorem empty_token_not_rejected:
  "authHash at_minute5 = \<lparr>now = ''#s3cr3t10145'', prev = ''#s3cr3t10144'', expires = 61000\<rparr>
   \<and> \<not> isValidHash at_minute5 ''''
   \<and> authToken example_digest (Some ''s3cr3t'') minute5_later minute5_later (Some '''') at_minute5
       = (Credential (authHash at_minute5), at_minute5, [])
   \<and> truthy (fst (authToken example_digest (Some ''s3cr3t'') minute5_later minute5_later
                     (Some '''') at_minute5))"
proof -
  have st: "authHash at_minute5
            = \<lparr>now = ''#s3cr3t10145'', prev = ''#s3cr3t10144'', expires = 61000\<rparr>"
    by (simp add: at_minute5_def example_digest_def minute5_def startup_time_def authToken_def
          constructed_def example_client_def toHash_def previousMinute_def show_int_def
          show_nat.simps js_rem_def Let_def)
  have nv: "\<not> isValidHash at_minute5 ''''" by (simp add: isValidHash_def st)
  have res: "authToken example_digest (Some ''s3cr3t'') minute5_later minute5_later (Some '''')
               at_minute5 = (Credential (authHash at_minute5), at_minute5, [])"
    by (simp add: authToken_def answer_def st minute5_later_def)
  show ?thesis using st nv res by simp
qed

lemma previousMinute_within_hour:
  assumes "1 \<le> getMinutes d" and "getMinutes d \<le> 59"
  shows "previousMinute auth d
         = auth @ show_int (getDate d) @ show_int (getHours d) @ show_int (getMinutes d - 1)"
  using assms by (simp add: previousMinute_def js_rem_def sgn_if)

text \<open>
  C2. The message hashed into \<open>prev\<close> is the message hashed into \<open>now\<close> with the minute
  replaced by the minute before, wrapped into 0..59, day and hour unchanged. At minute 0
  the client does not wrap: \<^verbatim>\<open>(0 - 1) % 60\<close> is \<^verbatim>\<open>-1\<close>, and the message ends in \<^verbatim>\<open>-1\<close>
  where the property asks for \<^verbatim>\<open>59\<close>.
\<close>

theorem previousMinute_at_minute_zero:
  "previousMinute ''s3cr3t'' \<lparr>getTime = 0, getDate = 10, getHours = 14, getMinutes = 0\<rparr>
     = ''s3cr3t1014-1''
   \<and> previousMinute ''s3cr3t'' \<lparr>getTime = 0, getDate = 10, getHours = 14, getMinutes = 0\<rparr>
     \<noteq> ''s3cr3t101459''"
  by (simp add: previousMinute_def show_int_def show_nat.simps js_rem_def)

text \<open>
  C3. The empty token is falsy, so \<open>authToken\<close> answers it as it answers a call without
  argument: whenever the cached credential is unexpired or the secret is available, the
  result is the credential object (both hashes in it), a truthy value and not a boolean.
\<close>

theorem empty_token_gets_credential:
  assumes "expires (authHash this) > getTime d0 \<or> (\<exists>auth. env = Some auth \<and> auth \<noteq> '''')"
    and "authToken sha256 env d0 d (Some '''') this = (r, this', fx)"
  shows "r = Credential (authHash this') \<and> truthy r \<and> (\<forall>b. r \<noteq> Boolean b)"
  using assms by (auto simp: authToken_def answer_def Let_def split: if_splits)

theorem empty_token_gets_credential_witness:
  "(expires (authHash example_client) > getTime minute5
       \<or> (\<exists>auth. Some ''s3cr3t'' = Some auth \<and> auth \<noteq> ''''))
   \<and> fst (authToken example_digest (Some ''s3cr3t'') minute5 minute5 (Some '''') example_client)
      = Credential \<lparr>now = ''#s3cr3t10145'', prev = ''#s3cr3t10144'', expires = 61000\<rparr>"
proof -
  let ?res = "authToken example_digest (Some ''s3cr3t'') minute5 minute5 (Some '''') example_client"
  have h1: "expires (authHash example_client) > getTime minute5
            \<or> (\<exists>auth. Some ''s3cr3t'' = Some auth \<and> auth \<noteq> '''')"
    by simp
  have h2: "?res = (fst ?res, fst (snd ?res), snd (snd ?res))" by simp
  have st: "authHash (fst (snd ?res))
            = \<lparr>now = ''#s3cr3t10145'', prev = ''#s3cr3t10144'', expires = 61000\<rparr>"
    by (simp add: example_digest_def minute5_def startup_time_def authToken_def constructed_def
          example_client_def toHash_def previousMinute_def show_int_def show_nat.simps js_rem_def
          Let_def)
  from empty_token_gets_credential [OF h1 h2] st h1 show ?thesis by simp
qed

text \<open>
  C4. When the credential has to be generated and the secret is absent from the
  environment (unset or empty), \<open>authToken\<close> logs the error and returns \<^verbatim>\<open>false\<close>, whatever
  the token; nothing is thrown and the stored credential is left as it was.
\<close>

theorem missing_secret_rejects:
  assumes "\<not> expires (authHash this) > getTime d0" and "env = None \<or> env = Some ''''"
  shows "authToken sha256 env d0 d test this
         = (Boolean False, this, [LogError ''No auth token provided in environment''])"
  using assms by (auto simp: authToken_def)

theorem missing_secret_rejects_witness:
  "\<not> expires (authHash example_client) > getTime minute5
   \<and> (None = None \<or> None = Some '''')
   \<and> authToken example_digest None minute5 minute5 (Some ''#s3cr3t10145'') example_client
      = (Boolean False, example_client, [LogError ''No auth token provided in environment''])"
proof -
  have h1: "\<not> expires (authHash example_client) > getTime minute5"
    by (simp add: example_client_def constructed_def startup_time_def minute5_def)
  have h2: "(None :: string option) = None \<or> None = Some ''''" by simp
  from missing_secret_rejects [OF h1 h2] h1 show ?thesis by simp
qed

text \<open>
  C5. When the cached credential has expired and the secret is available, recomputing at
  clock reading \<open>d\<close> stores as \<open>now\<close> the digest of the secret followed by the decimal day of
  the month, hour and minute of \<open>d\<close>, and as \<open>expires\<close> the time of \<open>d\<close> plus 60 seconds. With
  secret \<^verbatim>\<open>s3cr3t\<close> at day 10, hour 14, minute 5 that is the digest of \<^verbatim>\<open>s3cr3t10145\<close>; a
  recomputation at minute 6 stores the same digest as \<open>prev\<close>, and the token still validates.
\<close>

theorem recompute_credential:
  assumes "\<not> expires (authHash this) > getTime d0" and "auth \<noteq> ''''"
    and "authToken sha256 (Some auth) d0 d test this = (r, this', fx)"
  shows "now (authHash this')
           = sha256 (auth @ show_int (getDate d) @ show_int (getHours d) @ show_int (getMinutes d))
       \<and> expires (authHash this') = getTime d + 60000
       \<and> (auth = ''s3cr3t'' \<and> getDate d = 10 \<and> getHours d = 14 \<and> getMinutes d = 5 \<longrightarrow>
            now (authHash this') = sha256 ''s3cr3t10145''
          \<and> (\<forall>e0 e r2 this2 fx2.
                expires (authHash this') \<le> getTime e0
              \<and> getDate e = 10 \<and> getHours e = 14 \<and> getMinutes e = 6
              \<and> sha256 ''s3cr3t10145'' \<noteq> ''''
              \<and> authToken sha256 (Some auth) e0 e (Some (sha256 ''s3cr3t10145'')) this'
                  = (r2, this2, fx2)
              \<longrightarrow> prev (authHash this2) = sha256 ''s3cr3t10145'' \<and> r2 = Boolean True))"
proof -
  have st: "authHash this' = \<lparr>now = sha256 (toHash auth d), prev = sha256 (previousMinute auth d),
                              expires = getTime d + 60000\<rparr>"
    using assms by (auto simp: authToken_def Let_def)
  have a: "now (authHash this')
           = sha256 (auth @ show_int (getDate d) @ show_int (getHours d) @ show_int (getMinutes d))"
    by (simp add: st toHash_def)
  have b: "expires (authHash this') = getTime d + 60000" by (simp add: st)
  have c: "now (authHash this') = sha256 ''s3cr3t10145''"
    if "auth = ''s3cr3t''" "getDate d = 10" "getHours d = 14" "getMinutes d = 5"
    using that by (simp add: a show_int_def show_nat.simps)
  have d: "prev (authHash this2) = sha256 ''s3cr3t10145'' \<and> r2 = Boolean True"
    if "auth = ''s3cr3t''" and "expires (authHash this') \<le> getTime e0"
      and "getDate e = 10" "getHours e = 14" "getMinutes e = 6"
      and "sha256 ''s3cr3t10145'' \<noteq> ''''"
      and "authToken sha256 (Some auth) e0 e (Some (sha256 ''s3cr3t10145'')) this' = (r2, this2, fx2)"
    for e0 e r2 this2 fx2
  proof -
    have pm: "previousMinute ''s3cr3t'' e = ''s3cr3t10145''"
      using that(3-5) by (simp add: previousMinute_def show_int_def show_nat.simps js_rem_def)
    show ?thesis using that(1,2,6,7) pm
      by (auto simp: authToken_def Let_def answer_def isValidHash_def)
  qed
  show ?thesis using a b c d by blast
qed

theorem recompute_credential_witness:
  "\<not> expires (authHash example_client) > getTime minute5
   \<and> ''s3cr3t'' \<noteq> ''''
   \<and> now (authHash at_minute5) = ''#s3cr3t10145'' \<and> expires (authHash at_minute5) = 61000
   \<and> expires (authHash at_minute5) \<le> getTime minute6
   \<and> getDate minute6 = 10 \<and> getHours minute6 = 14 \<and> getMinutes minute6 = 6
   \<and> example_digest ''s3cr3t10145'' \<noteq> ''''
   \<and> prev (authHash (fst (snd (authToken example_digest (Some ''s3cr3t'') minute6 minute6
                                  (Some (example_digest ''s3cr3t10145'')) at_minute5))))
       = ''#s3cr3t10145''
   \<and> fst (authToken example_digest (Some ''s3cr3t'') minute6 minute6
            (Some (example_digest ''s3cr3t10145'')) at_minute5) = Boolean True"
proof -
  let ?cl = "example_client"
  let ?res = "authToken example_digest (Some ''s3cr3t'') minute5 minute5 None ?cl"
  let ?res2 = "authToken example_digest (Some ''s3cr3t'') minute6 minute6 (Some (example_digest ''s3cr3t10145'')) at_minute5"
  have h1: "\<not> expires (authHash ?cl) > getTime minute5"
    by (simp add: example_client_def constructed_def startup_time_def minute5_def)
  have h2: "''s3cr3t'' \<noteq> ''''" by simp
  have h3: "?res = (fst ?res, at_minute5, snd (snd ?res))" by (simp add: at_minute5_def)
  have m6: "getDate minute6 = 10 \<and> getHours minute6 = 14 \<and> getMinutes minute6 = 6"
    by (simp add: minute6_def)
  have td: "example_digest ''s3cr3t10145'' = ''#s3cr3t10145''" by (simp add: example_digest_def)
  have h4: "?res2 = (fst ?res2, fst (snd ?res2), snd (snd ?res2))" by simp
  note T = recompute_credential [OF h1 h2 h3]
  have pre: "''s3cr3t'' = ''s3cr3t'' \<and> getDate minute5 = 10 \<and> getHours minute5 = 14 \<and> getMinutes minute5 = 5"
    by (simp add: minute5_def)
  from T have "expires (authHash at_minute5) = getTime minute5 + 60000" by blast
  then have e: "expires (authHash at_minute5) = 61000" by (simp add: minute5_def)
  from T pre have "now (authHash at_minute5) = example_digest ''s3cr3t10145''" by blast
  then have n: "now (authHash at_minute5) = ''#s3cr3t10145''" by (simp only: td)
  from T pre have "\<forall>e0 e r2 this2 fx2.
                expires (authHash at_minute5) \<le> getTime e0
              \<and> getDate e = 10 \<and> getHours e = 14 \<and> getMinutes e = 6
              \<and> example_digest ''s3cr3t10145'' \<noteq> ''''
              \<and> authToken example_digest (Some ''s3cr3t'') e0 e (Some (example_digest ''s3cr3t10145'')) at_minute5 = (r2, this2, fx2)
              \<longrightarrow> prev (authHash this2) = example_digest ''s3cr3t10145'' \<and> r2 = Boolean True"
    by blast
  then have "expires (authHash at_minute5) \<le> getTime minute6
              \<and> getDate minute6 = 10 \<and> getHours minute6 = 14 \<and> getMinutes minute6 = 6
              \<and> example_digest ''s3cr3t10145'' \<noteq> ''''
              \<and> ?res2 = (fst ?res2, fst (snd ?res2), snd (snd ?res2))
              \<longrightarrow> prev (authHash (fst (snd ?res2))) = example_digest ''s3cr3t10145'' \<and> fst ?res2 = Boolean True"
    by blast
  moreover have ne: "example_digest ''s3cr3t10145'' \<noteq> ''''" by (simp add: example_digest_def)
  moreover have le: "expires (authHash at_minute5) \<le> getTime minute6" by (simp add: e minute6_def)
  ultimately have "prev (authHash (fst (snd ?res2))) = example_digest ''s3cr3t10145'' \<and> fst ?res2 = Boolean True"
    using m6 h4 by blast
  then have s: "prev (authHash (fst (snd ?res2))) = ''#s3cr3t10145'' \<and> fst ?res2 = Boolean True"
    by (simp only: td)
  show ?thesis using h1 h2 n e le m6 ne s by blast
qed

text \<open>
  C6. While \<open>expires\<close> is strictly in the future, \<open>authToken\<close> without argument returns the
  stored credential and neither changes it nor logs or recomputes anything; so a second
  call made before the expiry of the credential that a first call returned gives back
  that same credential and leaves the client as the first call left it.
\<close>

theorem cached_credential_returned:
  "(expires (authHash this) > getTime d0 \<longrightarrow>
      authToken sha256 env d0 d None this = (Credential (authHash this), this, []))
   \<and> (\<forall>c this1 fx1 env' e0 e.
        authToken sha256 env d0 d None this = (Credential c, this1, fx1) \<and> getTime e0 < expires c
        \<longrightarrow> authToken sha256 env' e0 e None this1 = (Credential c, this1, []))"
proof -
  have a: "authToken sha256 env d0 d None this = (Credential (authHash this), this, [])"
    if "expires (authHash this) > getTime d0"
    using that by (simp add: authToken_def answer_def)
  have b: "authToken sha256 env' e0 e None this1 = (Credential c, this1, [])"
    if "authToken sha256 env d0 d None this = (Credential c, this1, fx1)" "getTime e0 < expires c"
    for c this1 fx1 env' e0 e
  proof -
    from that(1) have "c = authHash this1"
      by (auto simp: authToken_def answer_def Let_def split: if_splits option.splits)
    with that(2) show ?thesis by (simp add: authToken_def answer_def)
  qed
  show ?thesis using a b by blast
qed

theorem cached_credential_returned_witness:
  "authToken example_digest (Some ''s3cr3t'') minute5 minute5 None example_client
     = (Credential (authHash at_minute5), at_minute5, [])
   \<and> getTime minute5_later < expires (authHash at_minute5)
   \<and> authToken example_digest None minute5_later minute6 None at_minute5
        = (Credential (authHash at_minute5), at_minute5, [])"
proof -
  have r: "authToken example_digest (Some ''s3cr3t'') minute5 minute5 None example_client
           = (Credential (authHash at_minute5), at_minute5, [])"
    by (simp add: at_minute5_def authToken_def answer_def constructed_def example_client_def
          startup_time_def minute5_def Let_def)
  have lt: "getTime minute5_later < expires (authHash at_minute5)"
    by (simp add: at_minute5_def authToken_def answer_def constructed_def example_client_def
          startup_time_def minute5_def minute5_later_def Let_def)
  from cached_credential_returned [where this = example_client and ?d0.0 = minute5
      and ?sha256.0 = example_digest and env = "Some ''s3cr3t''" and d = minute5] r lt
  have "authToken example_digest None minute5_later minute6 None at_minute5
        = (Credential (authHash at_minute5), at_minute5, [])"
    by blast
  moreover from cached_credential_returned [where this = at_minute5 and ?d0.0 = minute5_later
      and ?sha256.0 = example_digest and env = None and d = minute6] lt
  have "authToken example_digest None minute5_later minute6 None at_minute5
        = (Credential (authHash at_minute5), at_minute5, [])"
    by blast
  ultimately show ?thesis using r lt by blast
qed

section \<open>Properties of command dispatch\<close>

text \<open>What the \<^verbatim>\<open>catch\<close> block does when the callback throws synchronously.\<close>

lemma thrown_callback_reported:
  assumes "commands this (commandName interaction) = Some cmd" and "isCommand interaction"
    and "callback cmd interaction = Throws error"
    and "(if replied interaction then editReply interaction else followUp interaction) = Returns"
  shows "commandHandler this interaction
         = (Returns, this,
            [Invoke (commandName interaction),
             LogError (''Error in command callback: '' @ error),
             if replied interaction then EditReply messageContent
             else FollowUp messageContent True])"
  using assms
  by (cases "replied interaction")
     (simp_all add: commandHandler_def get_property_def catch_error_def Let_def)

lemma rejected_callback_unhandled:
  assumes "commands this (commandName interaction) = Some cmd" and "isCommand interaction"
    and "callback cmd interaction = Rejects error"
  shows "commandHandler this interaction
         = (Returns, this, [Invoke (commandName interaction), UnhandledRejection error])"
  using assms by (simp add: commandHandler_def get_property_def)

text \<open>
  C7. A registered handler that fails is contained by \<open>commandHandler\<close>: the failure is
  logged and one notification is attempted, by \<^verbatim>\<open>editReply\<close> when the interaction was
  replied to and by \<^verbatim>\<open>followUp\<close> otherwise. The client does this for a callback that throws
  synchronously (\<open>thrown_callback_reported\<close>). It does not for a callback that rejects, as
  the \<^verbatim>\<open>async\<close> callback of \<^verbatim>\<open>summary\<close> does: the call is not awaited, so nothing is logged,
  no notification is sent, and the rejection is left unhandled.
\<close>

theorem rejected_callback_unreported:
  "commandHandler example_client (slash ''summary'')
   = (Returns, example_client,
      [Invoke ''summary'', UnhandledRejection ''TypeError: mostRecent[0] is undefined''])"
  by (simp add: commandHandler_def get_property_def example_client_def constructed_def slash_def
        rejecting_summary_def)

text \<open>A name found neither in the registry nor through the prototype is ignored.\<close>

lemma undefined_name_ignored:
  assumes "commands this (commandName interaction) = None"
    and "commandName interaction \<notin> set object_prototype_keys"
  shows "commandHandler this interaction = (Returns, this, [])"
  using assms by (simp add: commandHandler_def get_property_def)

text \<open>
  C10. Dispatching a name that is not in the registry is a silent no-op: no error, no
  handler invoked, no state changed. The client tests \<^verbatim>\<open>this.commands[commandName]\<close>,
  which is truthy for an unregistered name that \<^verbatim>\<open>Object.prototype\<close> defines: for
  \<^verbatim>\<open>constructor\<close> the call of the missing \<^verbatim>\<open>callback\<close> throws, the error is logged and a
  failure notification is sent.
\<close>

theorem inherited_name_dispatched:
  "commands example_client ''constructor'' = None
   \<and> commandHandler example_client (slash ''constructor'')
     = (Returns, example_client,
        [LogError ''Error in command callback: TypeError: this.commands[commandName].callback is not a function'',
         FollowUp ''There was an error while executing this command!'' True])"
  by (simp add: commandHandler_def get_property_def example_client_def constructed_def slash_def
        object_prototype_keys_def catch_error_def not_a_function_def messageContent_def Let_def)

section \<open>Properties of lifecycle events\<close>

lemma eventCapture_returns: "fst (eventCapture name cb args) = Returns"
  by (simp add: eventCapture_def split: outcome.split)

lemma registerEvent_listeners:
  "listeners (fst (foldl (registerEvent modules) (this, fx) fs))
   = listeners this
     @ map subscription
         (concat (map (\<lambda>file. case modules file of None \<Rightarrow> [] | Some ev \<Rightarrow> [(file, ev)]) fs))"
proof (induction fs arbitrary: this fx)
  case Nil
  then show ?case by simp
next
  case (Cons f fs)
  show ?case
  proof (cases "modules f")
    case None
    then show ?thesis using Cons.IH by (simp add: registerEvent_def)
  next
    case (Some m)
    then show ?thesis using Cons.IH
      by (simp add: registerEvent_def on_def once_def subscription_def)
  qed
qed

lemma registerEvents_listeners:
  "listeners (fst (registerEvents dir modules this))
   = listeners this @ map subscription (imported dir modules)"
  by (simp add: registerEvents_def imported_def registerEvent_listeners)

lemma registerEvents_constructed:
  "listeners (fst (registerEvents dir modules (constructed cmds d)))
   = shardDisconnect_listener # map subscription (imported dir modules)"
  by (simp add: registerEvents_listeners constructed_def)

lemma emit_loop_subscriptions:
  "emit_loop ev args (map subscription ps)
   = (map subscription (remaining ev ps), Returns, captured args (subscribers ev ps))"
proof (induction ps)
  case Nil
  then show ?case by (simp add: remaining_def subscribers_def captured_def)
next
  case (Cons p ps)
  obtain fx where fx: "eventCapture (fst p) (eventCallback (snd p)) args = (Returns, fx)"
    using eventCapture_returns [of "fst p" "eventCallback (snd p)" args]
    by (cases "eventCapture (fst p) (eventCallback (snd p)) args") simp
  show ?case using Cons.IH fx
    by (simp add: remaining_def subscribers_def captured_def subscription_def)
qed

lemma emit_subscriptions:
  assumes "listeners this = shardDisconnect_listener # map subscription ps"
  shows "emit ev args this
   = (Returns, this\<lparr>listeners := shardDisconnect_listener # map subscription (remaining ev ps)\<rparr>,
      captured args (subscribers ev ps))"
  using assms by (simp add: emit_def emit_loop_subscriptions shardDisconnect_listener_def)








lemma imported_mem:
  assumes "file \<in> set dir" and "endsWith file ''.js''" and "modules file = Some m"
  shows "(file, m) \<in> set (imported dir modules)"
  using assms by (force simp: imported_def)


lemma emits_listeners:
  "listeners this = shardDisconnect_listener # map subscription ps \<Longrightarrow>
   listeners (fst (emits es this))
   = shardDisconnect_listener # map subscription (after_emissions es ps)"
proof (induction es arbitrary: ps this)
  case Nil
  then show ?case by (simp add: after_emissions_def)
next
  case (Cons e es)
  let ?this' = "this\<lparr>listeners := shardDisconnect_listener # map subscription (remaining (fst e) ps)\<rparr>"
  have em: "emit (fst e) (snd e) this = (Returns, ?this', captured (snd e) (subscribers (fst e) ps))"
    using Cons.prems by (rule emit_subscriptions)
  have "listeners ?this' = shardDisconnect_listener # map subscription (remaining (fst e) ps)"
    by simp
  from Cons.IH [OF this] show ?case
    using em by (simp add: after_emissions_def case_prod_beta)
qed

lemma after_emissions_keeps:
  "p \<in> set ps \<Longrightarrow> \<not> isOnceEvent (snd p) \<or> event (snd p) \<notin> fst ` set es \<Longrightarrow>
   p \<in> set (after_emissions es ps)"
proof (induction es arbitrary: ps)
  case Nil
  then show ?case by (simp add: after_emissions_def)
next
  case (Cons e es)
  from Cons.prems have "p \<in> set (remaining (fst e) ps)" by (auto simp: remaining_def)
  moreover from Cons.prems(2) have "\<not> isOnceEvent (snd p) \<or> event (snd p) \<notin> fst ` set es" by auto
  ultimately have "p \<in> set (after_emissions es (remaining (fst e) ps))" by (rule Cons.IH)
  then show ?case by (simp add: after_emissions_def)
qed



lemma captured_mem:
  assumes "(file, m) \<in> set ps"
  shows "set (snd (eventCapture file (eventCallback m) args)) \<subseteq> set (captured args ps)"
  using assms by (force simp: captured_def)

lemma captured_handled: "UnhandledRejection error \<notin> set (captured args ps)"
  by (induction ps) (auto simp: captured_def eventCapture_def split: outcome.splits)



text \<open>
  C9. Once the event files are registered on the constructed client, in every emission,
  after any earlier emissions, each handler still subscribed to the event is called whatever
  the other subscribers of that event do: an error thrown or a promise rejected by a
  callback is caught by its wrapper and logged, so that \<open>emit\<close> returns normally and no
  rejection is left unhandled; later emissions call their subscribers in the same way.
\<close>

theorem failing_subscriber_contained:
  assumes "file \<in> set dir" and "endsWith file ''.js''" and "modules file = Some m"
    and "\<not> isOnceEvent m \<or> event m \<notin> fst ` set es"
    and "emit (event m) args
           (fst (emits es (fst (registerEvents dir modules (constructed cmds d))))) = (r, this', fx)"
  shows "r = Returns \<and> Invoke file \<in> set fx
       \<and> (\<forall>error. eventCallback m args = Throws error \<or> eventCallback m args = Rejects error
            \<longrightarrow> LogError (''Error in event '' @ file @ '' callback: '' @ error) \<in> set fx)
       \<and> (\<forall>error. UnhandledRejection error \<notin> set fx)"
proof -
  let ?this0 = "fst (registerEvents dir modules (constructed cmds d))"
  let ?this1 = "fst (emits es ?this0)"
  let ?ps = "after_emissions es (imported dir modules)"
  have "listeners ?this0 = shardDisconnect_listener # map subscription (imported dir modules)"
    by (rule registerEvents_constructed)
  then have "listeners ?this1 = shardDisconnect_listener # map subscription ?ps"
    by (rule emits_listeners)
  then have "emit (event m) args ?this1
       = (Returns,
          ?this1\<lparr>listeners := shardDisconnect_listener # map subscription (remaining (event m) ?ps)\<rparr>,
          captured args (subscribers (event m) ?ps))"
    by (rule emit_subscriptions)
  with assms(5) have r: "r = Returns" and fx: "fx = captured args (subscribers (event m) ?ps)"
    by simp_all
  have handled: "UnhandledRejection error \<notin> set fx" for error
    unfolding fx by (rule captured_handled)
  have "(file, m) \<in> set ?ps"
  proof (rule after_emissions_keeps)
    show "(file, m) \<in> set (imported dir modules)"
      using assms(1-3) by (rule imported_mem)
    show "\<not> isOnceEvent (snd (file, m)) \<or> event (snd (file, m)) \<notin> fst ` set es"
      using assms(4) by simp
  qed
  then have "(file, m) \<in> set (subscribers (event m) ?ps)" by (simp add: subscribers_def)
  then have sub: "set (snd (eventCapture file (eventCallback m) args)) \<subseteq> set fx"
    unfolding fx by (rule captured_mem)
  have inv: "Invoke file \<in> set (snd (eventCapture file (eventCallback m) args))"
    by (simp add: eventCapture_def split: outcome.split)
  have log: "LogError (''Error in event '' @ file @ '' callback: '' @ error)
              \<in> set (snd (eventCapture file (eventCallback m) args))"
    if "eventCallback m args = Throws error \<or> eventCallback m args = Rejects error" for error
    using that by (auto simp: eventCapture_def)
  show ?thesis using r sub inv log handled by blast
qed

theorem failing_subscriber_contained_witness:
  "''audit.js'' \<in> set example_dir \<and> endsWith ''audit.js'' ''.js''
   \<and> example_modules ''audit.js'' = Some audit_module
   \<and> \<not> isOnceEvent audit_module
   \<and> eventCallback audit_module () = Rejects ''db down''
   \<and> fst (emit ''messageCreate'' () (fst (emits example_emissions example_registered))) = Returns
   \<and> LogError ''Error in event audit.js callback: db down''
        \<in> set (snd (snd (emit ''messageCreate'' () (fst (emits example_emissions example_registered)))))
   \<and> Invoke ''count.js''
        \<in> set (snd (snd (emit ''messageCreate'' () (fst (emits example_emissions example_registered)))))
   \<and> UnhandledRejection ''db down''
        \<notin> set (snd (snd (emit ''messageCreate'' () (fst (emits example_emissions example_registered)))))"
proof -
  let ?res = "emit ''messageCreate'' () (fst (emits example_emissions example_registered))"
  have h2: "''audit.js'' \<in> set example_dir" by (simp add: example_dir_def)
  have h3: "endsWith ''audit.js'' ''.js''" by (simp add: endsWith_def)
  have h4: "example_modules ''audit.js'' = Some audit_module" by (simp add: example_modules_def)
  have h5: "\<not> isOnceEvent audit_module \<or> event audit_module \<notin> fst ` set example_emissions"
    by (simp add: audit_module_def)
  have ev: "event audit_module = ''messageCreate''" by (simp add: audit_module_def)
  have h6: "emit (event audit_module) ()
              (fst (emits example_emissions (fst (registerEvents example_dir example_modules
                 (constructed [''ping'' \<mapsto> ping, ''summary'' \<mapsto> rejecting_summary] startup_time)))))
            = (fst ?res, fst (snd ?res), snd (snd ?res))"
    by (simp add: ev example_registered_def example_client_def)
  have g2: "''count.js'' \<in> set example_dir" by (simp add: example_dir_def)
  have g3: "endsWith ''count.js'' ''.js''" by (simp add: endsWith_def)
  have g4: "example_modules ''count.js'' = Some count_module" by (simp add: example_modules_def)
  have g5: "\<not> isOnceEvent count_module \<or> event count_module \<notin> fst ` set example_emissions"
    by (simp add: count_module_def)
  have ev': "event count_module = ''messageCreate''" by (simp add: count_module_def)
  have g6: "emit (event count_module) ()
              (fst (emits example_emissions (fst (registerEvents example_dir example_modules
                 (constructed [''ping'' \<mapsto> ping, ''summary'' \<mapsto> rejecting_summary] startup_time)))))
            = (fst ?res, fst (snd ?res), snd (snd ?res))"
    by (simp add: ev' example_registered_def example_client_def)
  have rej: "eventCallback audit_module () = Rejects ''db down''" by (simp add: audit_module_def)
  note A = failing_subscriber_contained [OF h2 h3 h4 h5 h6]
  note B = failing_subscriber_contained [OF g2 g3 g4 g5 g6]
  from A have r: "fst ?res = Returns" by blast
  from A rej have "LogError (''Error in event '' @ ''audit.js'' @ '' callback: '' @ ''db down'')
                     \<in> set (snd (snd ?res))" by blast
  then have l: "LogError ''Error in event audit.js callback: db down'' \<in> set (snd (snd ?res))"
    by simp
  from B have i: "Invoke ''count.js'' \<in> set (snd (snd ?res))" by blast
  from A have u: "UnhandledRejection ''db down'' \<notin> set (snd (snd ?res))" by blast
  have h5': "\<not> isOnceEvent audit_module" by (simp add: audit_module_def)
  show ?thesis using h2 h3 h4 h5' rej r l i u by blast
qed

end
